theory Spec2Isabelle
  imports Complex_Main
begin

section \<open>Values and exceptions\<close>

text \<open>
  The value that \<^verbatim>\<open>json.loads\<close> hands back.  An object keeps the pairs in the order
  of the text; the Python dict built from them is read through \<open>dict_get\<close> and
  \<open>dict_keys\<close> below (a repeated key keeps its first position and its last value).
  A Python string is a list of characters.
\<close>

datatype json =
    JNull
  | JBool bool
  | JInt int
  | JFloat real
  | JStr string
  | JArr "json list"
  | JObj "(string \<times> json) list"

datatype py_exception =
    APIError
  | AttributeError
  | ValueError
  | JSONDecodeError
  | TypeError
  | KeyError
  | ReadError

definition dict_get :: "(string \<times> json) list \<Rightarrow> string \<Rightarrow> json option" where
  "dict_get kvs k = map_of (rev kvs) k"

definition dict_keys :: "(string \<times> json) list \<Rightarrow> string list" where
  "dict_keys kvs = rev (remdups (rev (map fst kvs)))"

text \<open>\<^verbatim>\<open>obj.get(key, default)\<close>: only a dict has the method.\<close>

fun py_get :: "json \<Rightarrow> string \<Rightarrow> json \<Rightarrow> py_exception + json" where
  "py_get (JObj kvs) k d = Inr (case dict_get kvs k of None \<Rightarrow> d | Some v \<Rightarrow> v)"
| "py_get _ k d = Inl AttributeError"

text \<open>\<^verbatim>\<open>len(x)\<close>: defined on lists, strings and dicts.\<close>

fun py_len :: "json \<Rightarrow> py_exception + nat" where
  "py_len (JArr xs) = Inr (length xs)"
| "py_len (JStr s) = Inr (length s)"
| "py_len (JObj kvs) = Inr (length (dict_keys kvs))"
| "py_len _ = Inl TypeError"

text \<open>\<^verbatim>\<open>x.extend(ys)\<close>: a list method; strings and dicts do not have it.\<close>

fun py_extend :: "json \<Rightarrow> json list \<Rightarrow> py_exception + json" where
  "py_extend (JArr xs) ys = Inr (JArr (xs @ ys))"
| "py_extend _ ys = Inl AttributeError"

text \<open>\<^verbatim>\<open>x[:n]\<close>: lists and strings are sliced; a dict rejects the slice as a key.\<close>

fun py_slice_to :: "json \<Rightarrow> nat \<Rightarrow> py_exception + json" where
  "py_slice_to (JArr xs) n = Inr (JArr (take n xs))"
| "py_slice_to (JStr s) n = Inr (JStr (take n s))"
| "py_slice_to _ n = Inl TypeError"

text \<open>
  Iteration, as \<^verbatim>\<open>zip\<close> performs it: the elements of a list, the one-character
  strings of a string, the keys of a dict.
\<close>

fun py_iter :: "json \<Rightarrow> py_exception + json list" where
  "py_iter (JArr xs) = Inr xs"
| "py_iter (JStr s) = Inr (map (\<lambda>c. JStr [c]) s)"
| "py_iter (JObj kvs) = Inr (map JStr (dict_keys kvs))"
| "py_iter _ = Inl TypeError"

section \<open>Batch classification (sentiment\_gpt.py)\<close>

definition POSITIVE :: json where "POSITIVE = JStr ''Positive''"
definition NEGATIVE :: json where "NEGATIVE = JStr ''Negative''"
definition NEUTRAL :: json where "NEUTRAL = JStr ''Neutral''"


text \<open>
  What one chat-completion request does, up to and including \<^verbatim>\<open>json.loads\<close>:
  \<^item> \<open>ApiFailure\<close>: \<^verbatim>\<open>client.chat.completions.create\<close> raises;
  \<^item> \<open>NoMessage\<close>: \<^verbatim>\<open>response.choices[0].message.content\<close> is not a string,
    so \<^verbatim>\<open>.strip()\<close> raises;
  \<^item> \<open>BlankContent\<close>: the stripped content is empty, the code raises \<^verbatim>\<open>ValueError\<close>;
  \<^item> \<open>Malformed\<close>: \<^verbatim>\<open>json.loads\<close> raises;
  \<^item> \<open>Parsed doc\<close>: \<^verbatim>\<open>json.loads\<close> returns \<open>doc\<close>.
\<close>

datatype chat_outcome =
    ApiFailure
  | NoMessage
  | BlankContent
  | Malformed
  | Parsed json

text \<open>The body of the \<^verbatim>\<open>try\<close> block of \<^verbatim>\<open>classify_sentiment_batch\<close>.\<close>

definition classify_try :: "chat_outcome \<Rightarrow> string list \<Rightarrow> py_exception + json" where
  "classify_try outcome texts =
     (let len_text = length texts in
      case outcome of
        ApiFailure \<Rightarrow> Inl APIError
      | NoMessage \<Rightarrow> Inl AttributeError
      | BlankContent \<Rightarrow> Inl ValueError
      | Malformed \<Rightarrow> Inl JSONDecodeError
      | Parsed doc \<Rightarrow>
          (case py_get doc ''sentiments'' (JArr []) of
             Inl e \<Rightarrow> Inl e
           | Inr sentiments \<Rightarrow>
               (case py_len sentiments of
                  Inl e \<Rightarrow> Inl e
                | Inr r \<Rightarrow>
                    if r \<noteq> len_text then
                      (if r < len_text
                       then py_extend sentiments (replicate (len_text - r) NEUTRAL)
                       else py_slice_to sentiments len_text)
                    else Inr sentiments)))"

text \<open>The whole method: any exception of the body is answered by the all-Neutral list.\<close>

definition classify_sentiment_batch :: "chat_outcome \<Rightarrow> string list \<Rightarrow> json" where
  "classify_sentiment_batch outcome texts =
     (case classify_try outcome texts of
        Inl e \<Rightarrow> JArr (replicate (length texts) NEUTRAL)
      | Inr sentiments \<Rightarrow> sentiments)"

text \<open>
  An entry of \<^verbatim>\<open>results\<close>: the dict \<^verbatim>\<open>{"text": ..., "sentiment": ...}\<close> as a pair.
\<close>

type_synonym labeled = "string \<times> json"

text \<open>
  The \<^verbatim>\<open>try\<close>/\<^verbatim>\<open>except\<close> of the batch loop of \<^verbatim>\<open>analyze_file\<close>, after the
  call of \<^verbatim>\<open>classify_sentiment_batch\<close> has returned \<open>sentiments\<close>.  An exception
  of \<^verbatim>\<open>zip\<close> or \<^verbatim>\<open>len\<close> leaves what was appended before it and appends the whole
  batch with Neutral.
\<close>

definition label_batch :: "json \<Rightarrow> string list \<Rightarrow> labeled list \<Rightarrow> labeled list" where
  "label_batch sentiments batch results =
     (case py_iter sentiments of
        Inl e \<Rightarrow> results @ map (\<lambda>t. (t, NEUTRAL)) batch
      | Inr items \<Rightarrow>
          (let results1 = results @ zip batch items in
           case py_len sentiments of
             Inl e \<Rightarrow> results1 @ map (\<lambda>t. (t, NEUTRAL)) batch
           | Inr r \<Rightarrow>
               if r < length batch
               then results1 @ map (\<lambda>j. (batch ! j, NEUTRAL)) [r ..< length batch]
               else results1))"

text \<open>\<^verbatim>\<open>range(i, stop, step)\<close> for a positive step.\<close>

function py_range :: "nat \<Rightarrow> nat \<Rightarrow> nat \<Rightarrow> nat list" where
  "py_range i stop step =
     (if 0 < step \<and> i < stop then i # py_range (i + step) stop step else [])"
  by pat_completeness auto
termination
  by (relation "measure (\<lambda>(i, stop, step). stop - i)") auto

declare py_range.simps [simp del]

text \<open>
  The adapter is asked once per chunk; its answer may depend on the number of the
  call (\<^verbatim>\<open>batch_num - 1\<close>) and on the texts sent.
\<close>

type_synonym adapter = "nat \<Rightarrow> string list \<Rightarrow> chat_outcome"

fun batches_loop ::
  "adapter \<Rightarrow> nat \<Rightarrow> string list \<Rightarrow> nat list \<Rightarrow> labeled list \<Rightarrow> labeled list" where
  "batches_loop adapter batch_size documents [] results = results"
| "batches_loop adapter batch_size documents (i # idxs) results =
     (let batch = take batch_size (drop i documents);
          sentiments = classify_sentiment_batch (adapter (i div batch_size) batch) batch
      in batches_loop adapter batch_size documents idxs (label_batch sentiments batch results))"

text \<open>The \<^verbatim>\<open>while\<close> loop of the final validation.\<close>

function pad_missing :: "string list \<Rightarrow> labeled list \<Rightarrow> labeled list" where
  "pad_missing documents results =
     (if length results < length documents
      then pad_missing documents
             (results @
                [(if length results < length documents
                  then documents ! length results else ''Missing'', NEUTRAL)])
      else results)"
  by pat_completeness auto
termination
  by (relation "measure (\<lambda>(documents, results). length documents - length results)") auto

declare pad_missing.simps [simp del]

text \<open>
  \<^verbatim>\<open>analyze_file\<close>, from the documents that \<^verbatim>\<open>extract_text_from_excel\<close> returned
  to the table handed to \<^verbatim>\<open>to_excel\<close>: \<open>Inr None\<close> is the early return that writes
  nothing, \<open>Inl ValueError\<close> is \<^verbatim>\<open>range\<close> refusing a zero step.  A negative step
  gives an empty range.
\<close>

definition analyze_file ::
  "int \<Rightarrow> adapter \<Rightarrow> string list \<Rightarrow> py_exception + labeled list option" where
  "analyze_file batch_size adapter documents =
     (if documents = [] then Inr None
      else if batch_size = 0 then Inl ValueError
      else
        (let total_docs = length documents;
             idxs = (if batch_size < 0 then [] else py_range 0 total_docs (nat batch_size));
             results = batches_loop adapter (nat batch_size) documents idxs [];
             results' = (if length results \<noteq> total_docs
                         then pad_missing documents results else results)
         in Inr (Some results')))"



definition short_adapter :: adapter where
  "short_adapter k batch =
     (if k = 0 then Parsed (JObj [(''sentiments'', JArr [POSITIVE])])
      else if k = 1 then Malformed
      else Parsed (JObj [(''sentiments'', JArr [NEGATIVE, POSITIVE, POSITIVE])]))"

section \<open>Tables and files\<close>

text \<open>
  A timestamp as the quarter split reads it, and a table cell.  \<open>NaN\<close> is the empty
  cell.
\<close>

record timestamp =
  ts_year :: int
  ts_month :: int
  ts_day :: int

datatype cell = NaN | Str string | Num real

text \<open>
  A row of a table.  \<open>utc_time\<close> is the \<^verbatim>\<open>UTC_Time\<close> cell after
  \<^verbatim>\<open>pd.to_datetime(..., errors='coerce')\<close>: \<open>None\<close> is \<^verbatim>\<open>NaT\<close>, what a missing or
  unparseable value is coerced to.  A field whose column the table does not have is
  empty.
\<close>

record row =
  utc_time :: "timestamp option"
  tweet_text :: cell
  sentiment :: cell

type_synonym frame = "string list \<times> row list"

text \<open>
  What a path holds: a folder, a file \<^verbatim>\<open>pd.read_excel\<close> cannot read, or a workbook
  with its columns and rows.
\<close>

datatype node = Directory | Unreadable | Workbook "string list" "row list"

type_synonym filesystem = "string \<Rightarrow> node option"

definition path_exists :: "filesystem \<Rightarrow> string \<Rightarrow> bool" where
  "path_exists fs path = (fs path \<noteq> None)"

definition read_excel :: "filesystem \<Rightarrow> string \<Rightarrow> py_exception + frame" where
  "read_excel fs path =
     (case fs path of
        Some (Workbook columns rows) \<Rightarrow> Inr (columns, rows)
      | _ \<Rightarrow> Inl ReadError)"

text \<open>
  \<^verbatim>\<open>df.to_excel(path, index=False)\<close>: the file is replaced as a whole.  The write
  itself is taken to succeed.
\<close>

definition to_excel :: "filesystem \<Rightarrow> string \<Rightarrow> frame \<Rightarrow> filesystem" where
  "to_excel fs path df = fs(path \<mapsto> Workbook (fst df) (snd df))"

text \<open>
  \<^verbatim>\<open>pd.concat([a, b], ignore_index=True)\<close>: the rows of \<open>a\<close>, then the rows of \<open>b\<close>;
  the columns of \<open>a\<close>, then those only \<open>b\<close> has.
\<close>

definition pd_concat :: "frame \<Rightarrow> frame \<Rightarrow> frame" where
  "pd_concat a b = (fst a @ filter (\<lambda>c. c \<notin> set (fst a)) (fst b), snd a @ snd b)"

section \<open>Configuration (config.py)\<close>

definition BACKSLASH :: char where
  "BACKSLASH = CHR 0x5C"

definition BASE_DATA_PATH :: string where
  "BASE_DATA_PATH =
     ''C:'' @ [BACKSLASH] @ ''Users'' @ [BACKSLASH] @ ''wangze'' @ [BACKSLASH]
     @ ''OneDrive - IAEA'' @ [BACKSLASH] @ ''Desktop'' @ [BACKSLASH]
     @ ''Nuclear power excel'' @ [BACKSLASH] @ ''clean data''"


definition ANALYSIS_YEARS :: "int list" where
  "ANALYSIS_YEARS = [2024, 2025]"

definition get_quarterly_file_path :: "string \<Rightarrow> string \<Rightarrow> string" where
  "get_quarterly_file_path year quarter =
     BASE_DATA_PATH @ [BACKSLASH] @ year @ ''_'' @ quarter @ ''.xlsx''"

section \<open>Strings\<close>

text \<open>\<^verbatim>\<open>str(n)\<close> for an integer.\<close>

definition digit_char :: "nat \<Rightarrow> char" where
  "digit_char d = ''0123456789'' ! d"

function str_nat :: "nat \<Rightarrow> string" where
  "str_nat n = (if n < 10 then [digit_char n] else str_nat (n div 10) @ [digit_char (n mod 10)])"
  by pat_completeness auto
termination
  by (relation "measure (\<lambda>n. n)") auto

declare str_nat.simps [simp del]

definition str_int :: "int \<Rightarrow> string" where
  "str_int i = (if i < 0 then CHR ''-'' # str_nat (nat (- i)) else str_nat (nat i))"

text \<open>\<^verbatim>\<open>s.split(sep)\<close> for a one-character separator: never an empty list.\<close>

fun split_on :: "char \<Rightarrow> string \<Rightarrow> string list" where
  "split_on sep [] = [[]]"
| "split_on sep (c # cs) =
     (if c = sep then [] # split_on sep cs
      else (case split_on sep cs of
              [] \<Rightarrow> [[c]]
            | part # parts \<Rightarrow> (c # part) # parts))"

text \<open>\<^verbatim>\<open>s.isdigit()\<close> on the ASCII digits.\<close>

definition isdigit :: "string \<Rightarrow> bool" where
  "isdigit s = (s \<noteq> [] \<and> list_all (\<lambda>c. c \<in> set ''0123456789'') s)"

text \<open>
  \<^verbatim>\<open>os.path.basename\<close> and \<^verbatim>\<open>os.path.join\<close> on the Windows paths the configuration
  uses: both separators end a folder name.
\<close>

definition is_sep :: "char \<Rightarrow> bool" where
  "is_sep c = (c = BACKSLASH \<or> c = CHR ''/'')"

definition basename :: "string \<Rightarrow> string" where
  "basename path = rev (takeWhile (\<lambda>c. \<not> is_sep c) (rev path))"

definition path_join :: "string \<Rightarrow> string \<Rightarrow> string" where
  "path_join folder file =
     (if folder = [] then file
      else if is_sep (last folder) \<or> last folder = CHR '':'' then folder @ file
      else folder @ [BACKSLASH] @ file)"

section \<open>Quarterly segmentation (divide\_by\_quarter.py)\<close>

definition get_quarter :: "int \<Rightarrow> string" where
  "get_quarter month =
     (if 1 \<le> month \<and> month \<le> 3 then ''Q1''
      else if 4 \<le> month \<and> month \<le> 6 then ''Q2''
      else if 7 \<le> month \<and> month \<le> 9 then ''Q3''
      else ''Q4'')"

text \<open>
  \<^verbatim>\<open>series.mode()[0]\<close>: of the most frequent values, the smallest.  Only called on a
  non-empty list.
\<close>

definition py_mode :: "int list \<Rightarrow> int" where
  "py_mode xs =
     (let top = fold max (map (count_list xs) xs) 0
      in hd (sort (filter (\<lambda>x. count_list xs x = top) xs)))"

text \<open>
  The year of a file: the last \<^verbatim>\<open>_\<close>-separated part of its name up to the first dot
  when that is a number, otherwise the most frequent year of the valid timestamps,
  otherwise \<^verbatim>\<open>unknown\<close>.  (Nothing in the inner \<^verbatim>\<open>try\<close> can raise.)
\<close>

definition resolve_year :: "string \<Rightarrow> row list \<Rightarrow> string" where
  "resolve_year file_path rows =
     (let filename = basename file_path;
          year = hd (split_on (CHR ''.'') (last (split_on (CHR ''_'') filename)))
      in if \<not> isdigit year then
           (let valid_dates = concat (map (\<lambda>r. case utc_time r of None \<Rightarrow> [] | Some t \<Rightarrow> [t]) rows)
            in if 0 < length valid_dates
               then str_int (py_mode (map ts_year valid_dates))
               else ''unknown'')
         else year)"

text \<open>
  \<^verbatim>\<open>quarterly_data\<close>: a dict from the four quarter names to lists of rows, in
  insertion order.  \<^verbatim>\<open>quarterly_data[quarter].append(row)\<close> raises \<^verbatim>\<open>KeyError\<close> on
  an unknown key.
\<close>

type_synonym buckets = "(string \<times> row list) list"

definition QUARTERS :: "string list" where
  "QUARTERS = [''Q1'', ''Q2'', ''Q3'', ''Q4'']"

definition empty_buckets :: buckets where
  "empty_buckets = [(''Q1'', []), (''Q2'', []), (''Q3'', []), (''Q4'', [])]"

definition bucket_append :: "buckets \<Rightarrow> string \<Rightarrow> row \<Rightarrow> py_exception + buckets" where
  "bucket_append quarterly_data quarter r =
     (if quarter \<in> fst ` set quarterly_data
      then Inr (map (\<lambda>(k, rows). if k = quarter then (k, rows @ [r]) else (k, rows))
                  quarterly_data)
      else Inl KeyError)"

text \<open>
  The row loop, on the state \<open>(quarterly_data, processed_count, skipped_count)\<close>.
\<close>

fun bucket_rows ::
  "row list \<Rightarrow> buckets \<times> nat \<times> nat \<Rightarrow> py_exception + buckets \<times> nat \<times> nat" where
  "bucket_rows [] state = Inr state"
| "bucket_rows (r # rs) (quarterly_data, processed_count, skipped_count) =
     (case utc_time r of
        Some t \<Rightarrow>
          (case bucket_append quarterly_data (get_quarter (ts_month t)) r of
             Inl e \<Rightarrow> Inl e
           | Inr quarterly_data' \<Rightarrow>
               bucket_rows rs (quarterly_data', processed_count + 1, skipped_count))
      | None \<Rightarrow> bucket_rows rs (quarterly_data, processed_count, skipped_count + 1))"

text \<open>
  The body of the save loop for one non-empty bucket: merge with the partition when
  its file exists, create it otherwise, and write the file.
\<close>

definition save_quarter ::
  "string \<Rightarrow> string list \<Rightarrow> string \<Rightarrow> row list \<Rightarrow> filesystem \<Rightarrow> py_exception + filesystem" where
  "save_quarter year columns quarter rows fs =
     (let quarter_file_path = get_quarterly_file_path year quarter
      in case (if path_exists fs quarter_file_path
               then (case read_excel fs quarter_file_path of
                       Inl e \<Rightarrow> Inl e
                     | Inr existing_df \<Rightarrow> Inr (pd_concat existing_df (columns, rows)))
               else Inr (columns, rows)) of
           Inl e \<Rightarrow> Inl e
         | Inr new_df \<Rightarrow> Inr (to_excel fs quarter_file_path new_df))"

text \<open>
  The save loop.  An exception leaves the loop at once, with the files written so
  far; it is returned beside the file system.  What the method only prints (its
  messages, \<^verbatim>\<open>saved_files\<close>) is not part of the result.
\<close>

fun save_quarters ::
  "string \<Rightarrow> string list \<Rightarrow> buckets \<Rightarrow> filesystem \<Rightarrow> filesystem \<times> py_exception option" where
  "save_quarters year columns [] fs = (fs, None)"
| "save_quarters year columns ((quarter, rows) # rest) fs =
     (if rows \<noteq> [] then
        (case save_quarter year columns quarter rows fs of
           Inl e \<Rightarrow> (fs, Some e)
         | Inr fs' \<Rightarrow> save_quarters year columns rest fs')
      else save_quarters year columns rest fs)"

text \<open>
  \<^verbatim>\<open>process_single_file\<close>: the one \<^verbatim>\<open>try\<close> around the whole method catches every
  exception and prints it; the result is the file system afterwards and the
  exception that was caught, if any.
\<close>

definition process_single_file ::
  "string \<Rightarrow> filesystem \<Rightarrow> filesystem \<times> py_exception option" where
  "process_single_file file_path fs =
     (case read_excel fs file_path of
        Inl e \<Rightarrow> (fs, Some e)
      | Inr df \<Rightarrow>
          if ''UTC_Time'' \<notin> set (fst df) then (fs, Some ValueError)
          else
            (let year = resolve_year file_path (snd df) in
             case bucket_rows (snd df) (empty_buckets, 0, 0) of
               Inl e \<Rightarrow> (fs, Some e)
             | Inr (quarterly_data, processed_count, skipped_count) \<Rightarrow>
                 save_quarters year (fst df) quarterly_data fs))"

text \<open>The file loop of \<^verbatim>\<open>process_all_files\<close>.\<close>

fun process_files :: "string \<Rightarrow> string list \<Rightarrow> filesystem \<Rightarrow> filesystem" where
  "process_files source_folder [] fs = fs"
| "process_files source_folder (file # files) fs =
     process_files source_folder files
       (fst (process_single_file (path_join source_folder file) fs))"

definition result_file_name :: "int \<Rightarrow> string" where
  "result_file_name year = ''results_'' @ str_int year @ ''_sentiment.xlsx''"

definition process_all_files :: "string \<Rightarrow> filesystem \<Rightarrow> filesystem" where
  "process_all_files source_folder fs =
     (if \<not> path_exists fs source_folder then fs
      else
        (let files = filter (\<lambda>filename. path_exists fs (path_join source_folder filename))
                       (map result_file_name ANALYSIS_YEARS)
         in if files = [] then fs else process_files source_folder files fs))"

section \<open>Aggregation (line\_chart\_by\_quarter.py)\<close>

text \<open>
  \<^verbatim>\<open>sentiment_data\<close>: the four lists under the keys \<^verbatim>\<open>quarter\<close>, \<^verbatim>\<open>positive\<close>,
  \<^verbatim>\<open>negative\<close> and \<^verbatim>\<open>neutral\<close>, which grow together.  The percentages are real
  numbers here; the rounding of the floating-point operations is not modelled.
\<close>

record sentiment_data =
  quarter_col :: "string list"
  positive_col :: "real list"
  negative_col :: "real list"
  neutral_col :: "real list"

definition find_sentiment_column :: "string list \<Rightarrow> string option" where
  "find_sentiment_column columns =
     (if ''sentiment'' \<in> set columns then Some ''sentiment'' else None)"

text \<open>
  \<^verbatim>\<open>series.value_counts(normalize=True) * 100\<close>: empty cells are left out, of the
  count and of the total; one entry per distinct value.
\<close>

definition value_counts_pct :: "cell list \<Rightarrow> (cell \<times> real) list" where
  "value_counts_pct cells =
     (let present = filter (\<lambda>c. c \<noteq> NaN) cells
      in map (\<lambda>v. (v, real (count_list present v) / real (length present) * 100))
           (remdups present))"

definition series_get :: "(cell \<times> real) list \<Rightarrow> cell \<Rightarrow> real \<Rightarrow> real" where
  "series_get counts key dflt = (case map_of counts key of None \<Rightarrow> dflt | Some v \<Rightarrow> v)"

definition process_quarterly_file ::
  "string \<Rightarrow> string \<Rightarrow> sentiment_data \<Rightarrow> filesystem \<Rightarrow> bool \<times> sentiment_data" where
  "process_quarterly_file file_path quarter_name data fs =
     (case read_excel fs file_path of
        Inl e \<Rightarrow> (False, data)
      | Inr df \<Rightarrow>
          (case find_sentiment_column (fst df) of
             None \<Rightarrow> (False, data)
           | Some sentiment_col \<Rightarrow>
               (let sentiment_counts = value_counts_pct (map sentiment (snd df));
                    positive' = series_get sentiment_counts (Str ''Positive'') 0
                              + series_get sentiment_counts (Str ''positive'') 0;
                    negative' = series_get sentiment_counts (Str ''Negative'') 0
                              + series_get sentiment_counts (Str ''negative'') 0;
                    neutral' = series_get sentiment_counts (Str ''Neutral'') 0
                             + series_get sentiment_counts (Str ''neutral'') 0
                in (True, data\<lparr>quarter_col := quarter_col data @ [quarter_name],
                                positive_col := positive_col data @ [positive'],
                                negative_col := negative_col data @ [negative'],
                                neutral_col := neutral_col data @ [neutral']\<rparr>))))"

text \<open>The nested iteration of \<^verbatim>\<open>collect_data\<close>, over the quarters of a year and over the years.\<close>

fun collect_quarters ::
  "int \<Rightarrow> string list \<Rightarrow> sentiment_data \<Rightarrow> filesystem \<Rightarrow> sentiment_data" where
  "collect_quarters year [] data fs = data"
| "collect_quarters year (q # qs) data fs =
     (let file_path = get_quarterly_file_path (str_int year) q;
          quarter_name = str_int year @ ''_'' @ q
      in collect_quarters year qs
           (if path_exists fs file_path
            then snd (process_quarterly_file file_path quarter_name data fs)
            else data) fs)"

fun collect_years :: "int list \<Rightarrow> sentiment_data \<Rightarrow> filesystem \<Rightarrow> sentiment_data" where
  "collect_years [] data fs = data"
| "collect_years (year # years) data fs =
     collect_years years (collect_quarters year QUARTERS data fs) fs"

definition collect_data :: "int \<times> int \<Rightarrow> sentiment_data \<Rightarrow> filesystem \<Rightarrow> sentiment_data" where
  "collect_data year_range data fs =
     collect_years [fst year_range .. snd year_range] data fs"

definition no_data :: sentiment_data where
  "no_data = \<lparr>quarter_col = [], positive_col = [], negative_col = [], neutral_col = []\<rparr>"


section \<open>Notions used in the statements\<close>

text \<open>A row belongs to quarter \<open>q\<close>: its timestamp is valid and its month maps to \<open>q\<close>.\<close>

definition in_quarter :: "string \<Rightarrow> row \<Rightarrow> bool" where
  "in_quarter q r = (case utc_time r of None \<Rightarrow> False | Some t \<Rightarrow> get_quarter (ts_month t) = q)"

text \<open>The records of the partition persisted for a year and a quarter, if it can be read.\<close>

definition partition_rows :: "filesystem \<Rightarrow> string \<Rightarrow> string \<Rightarrow> row list option" where
  "partition_rows fs year q =
     (case fs (get_quarterly_file_path year q) of
        Some (Workbook columns rows) \<Rightarrow> Some rows
      | _ \<Rightarrow> None)"

text \<open>
  The partition of a year and a quarter can be aggregated: its file is a workbook that
  has a \<^verbatim>\<open>sentiment\<close> column.
\<close>

definition usable_partition :: "filesystem \<Rightarrow> int \<Rightarrow> string \<Rightarrow> bool" where
  "usable_partition fs year q =
     (case fs (get_quarterly_file_path (str_int year) q) of
        Some (Workbook columns rows) \<Rightarrow> ''sentiment'' \<in> set columns
      | _ \<Rightarrow> False)"

text \<open>
  The quarters of a range of years, in chronological order, whose partition can be
  aggregated, and the name of a quarter.
\<close>

definition usable_quarters :: "filesystem \<Rightarrow> int \<Rightarrow> int \<Rightarrow> (int \<times> string) list" where
  "usable_quarters fs first_year last_year =
     filter (\<lambda>(y, q). usable_partition fs y q) (List.product [first_year .. last_year] QUARTERS)"

definition quarter_name_of :: "int \<times> string \<Rightarrow> string" where
  "quarter_name_of yq = str_int (fst yq) @ ''_'' @ snd yq"

text \<open>
  The share of a class as the code counts it: of the labels that are not empty, those
  spelled \<open>capitalised\<close> or \<open>lowercase\<close>, in percent.
\<close>

definition label_share :: "string \<Rightarrow> string \<Rightarrow> cell list \<Rightarrow> real" where
  "label_share capitalised lowercase cells =
     (let labels = filter (\<lambda>c. c \<noteq> NaN) cells
      in if labels = [] then 0
         else 100 * real (count_list labels (Str capitalised) + count_list labels (Str lowercase))
              / real (length labels))"

text \<open>
  The percentage of a class in the words of the specification: the labels equal to the
  class when case is ignored, out of all records of the partition.
\<close>

definition lower_char :: "char \<Rightarrow> char" where
  "lower_char c =
     (let n = (of_char c :: nat) in if 65 \<le> n \<and> n \<le> 90 then char_of (n + 32) else c)"

definition spec_percentage :: "string \<Rightarrow> cell list \<Rightarrow> real" where
  "spec_percentage class_name cells =
     100 * real (length (filter (\<lambda>c. case c of Str s \<Rightarrow> map lower_char s = class_name
                                               | _ \<Rightarrow> False) cells))
     / real (length cells)"

text \<open>Rows and files used to run the model on concrete inputs.\<close>

definition dated :: "int \<Rightarrow> int \<Rightarrow> string \<Rightarrow> row" where
  "dated y m label =
     \<lparr>utc_time = Some \<lparr>ts_year = y, ts_month = m, ts_day = 15\<rparr>,
      tweet_text = Str ''post'', sentiment = Str label\<rparr>"

definition undated :: "string \<Rightarrow> row" where
  "undated label = \<lparr>utc_time = None, tweet_text = Str ''post'', sentiment = Str label\<rparr>"

definition RESULT_COLUMNS :: "string list" where
  "RESULT_COLUMNS = [''UTC_Time'', ''text'', ''sentiment'']"

definition scenario_rows :: "row list" where
  "scenario_rows =
     [dated 2024 1 ''Positive'', dated 2024 4 ''Negative'', undated ''Neutral'',
      dated 2024 7 ''Neutral'', dated 2024 10 ''Positive'']"

definition fs_one_partition :: filesystem where
  "fs_one_partition =
     [get_quarterly_file_path ''2024'' ''Q1''
        \<mapsto> Workbook RESULT_COLUMNS [dated 2024 2 ''Neutral'']]"

definition unlabelled :: "int \<Rightarrow> int \<Rightarrow> row" where
  "unlabelled y m =
     \<lparr>utc_time = Some \<lparr>ts_year = y, ts_month = m, ts_day = 15\<rparr>,
      tweet_text = Str ''post'', sentiment = NaN\<rparr>"

text \<open>
  Partitions of 2024: the first with an upper-case label, the second with a record
  that has no label, the third unreadable, the fourth without a sentiment column.
\<close>

definition fs_partitions :: filesystem where
  "fs_partitions =
     [get_quarterly_file_path ''2024'' ''Q1''
        \<mapsto> Workbook RESULT_COLUMNS [dated 2024 1 ''POSITIVE'', dated 2024 2 ''Negative''],
      get_quarterly_file_path ''2024'' ''Q2''
        \<mapsto> Workbook RESULT_COLUMNS [dated 2024 4 ''Positive'', unlabelled 2024 5],
      get_quarterly_file_path ''2024'' ''Q3'' \<mapsto> Unreadable,
      get_quarterly_file_path ''2024'' ''Q4''
        \<mapsto> Workbook [''UTC_Time'', ''text''] [unlabelled 2024 10]]"

definition results_2024 :: string where
  "results_2024 = path_join BASE_DATA_PATH (result_file_name 2024)"

text \<open>
  A data folder with the results of 2024 (rows of January, April and July) and a
  second-quarter partition that cannot be read.
\<close>

definition fs_unreadable_q2 :: filesystem where
  "fs_unreadable_q2 =
     [BASE_DATA_PATH \<mapsto> Directory,
      results_2024 \<mapsto> Workbook RESULT_COLUMNS
         [dated 2024 1 ''Positive'', dated 2024 4 ''Negative'', dated 2024 7 ''Neutral''],
      get_quarterly_file_path ''2024'' ''Q2'' \<mapsto> Unreadable]"

section \<open>Properties of the batch classification\<close>

lemma py_iter_len: "py_iter s = Inr items \<Longrightarrow> py_len s = Inr (length items)"
  by (cases s) auto


lemma classify_try_len:
  "classify_try outcome texts = Inr s \<Longrightarrow> py_len s = Inr (length texts)"
  unfolding classify_try_def Let_def
  by (cases outcome; cases s)
     (auto split: sum.splits if_splits json.splits elim!: py_extend.elims py_slice_to.elims)

lemma classify_sentiment_batch_len:
  "py_len (classify_sentiment_batch outcome texts) = Inr (length texts)"
  unfolding classify_sentiment_batch_def
  by (cases "classify_try outcome texts") (simp_all add: classify_try_len)

lemma fill_neutral_texts:
  "r \<le> length batch \<Longrightarrow> map (\<lambda>j. batch ! j) [r ..< length batch] = drop r batch"
  by (simp add: list_eq_iff_nth_eq)

lemma label_batch_texts:
  "map fst (label_batch sentiments batch results) = map fst results @ batch"
proof (cases "py_iter sentiments")
  case (Inl e)
  then show ?thesis by (simp add: label_batch_def comp_def)
next
  case (Inr items)
  then have len: "py_len sentiments = Inr (length items)" by (rule py_iter_len)
  show ?thesis
  proof (cases "length items < length batch")
    case True
    have "map fst (map (\<lambda>j. (batch ! j, NEUTRAL)) [length items ..< length batch])
            = drop (length items) batch"
      using True by (simp add: comp_def fill_neutral_texts)
    moreover have "map fst (zip batch items) = take (length items) batch"
      using True by (simp add: map_fst_zip_take)
    ultimately show ?thesis
      using Inr len True by (simp add: label_batch_def Let_def)
  next
    case False
    then have "map fst (zip batch items) = batch"
      by (simp add: map_fst_zip_take)
    then show ?thesis
      using Inr len False by (simp add: label_batch_def Let_def)
  qed
qed

lemma batches_loop_texts:
  "0 < bs \<Longrightarrow>
   map fst (batches_loop adapter bs docs (py_range i (length docs) bs) results)
     = map fst results @ drop i docs"
proof (induction i "length docs" bs arbitrary: results rule: py_range.induct)
  case (1 i step)
  show ?case
  proof (cases "i < length docs")
    case True
    have split: "take step (drop i docs) @ drop (i + step) docs = drop i docs"
      by (metis add.commute append_take_drop_id drop_drop)
    from True "1.prems" have
      "py_range i (length docs) step = i # py_range (i + step) (length docs) step"
      by (subst py_range.simps) simp
    then show ?thesis
      using "1.hyps"[OF _ "1.prems"] True "1.prems" split
      by (simp add: Let_def label_batch_texts)
  next
    case False
    then have "py_range i (length docs) step = []"
      by (simp add: py_range.simps)
    then show ?thesis using False by simp
  qed
qed

lemma pad_missing_texts:
  "map fst results = take (length results) documents \<Longrightarrow>
   length results \<le> length documents \<Longrightarrow>
   map fst (pad_missing documents results) = documents"
proof (induction documents results rule: pad_missing.induct)
  case (1 documents results)
  show ?case
  proof (cases "length results < length documents")
    case True
    let ?r = "results @ [(documents ! length results, NEUTRAL)]"
    have "map fst ?r = take (length ?r) documents"
      using True "1.prems"(1) by (simp add: take_Suc_conv_app_nth)
    moreover have "length ?r \<le> length documents" using True by simp
    ultimately have "map fst (pad_missing documents ?r) = documents"
      using "1.IH"[OF True] True by simp
    then show ?thesis using True by (subst pad_missing.simps) simp
  next
    case False
    with "1.prems" show ?thesis by (subst pad_missing.simps) simp
  qed
qed

lemma analyze_file_texts:
  assumes "batch_size \<noteq> 0" and "documents \<noteq> []"
  shows "\<exists>results. analyze_file batch_size adapter documents = Inr (Some results)
           \<and> map fst results = documents"
proof (cases "batch_size < 0")
  case True
  have "map fst (pad_missing documents []) = documents"
    by (rule pad_missing_texts) simp_all
  then show ?thesis
    using assms True by (simp add: analyze_file_def Let_def)
next
  case False
  with assms have pos: "0 < nat batch_size" by simp
  have texts: "map fst (batches_loop adapter (nat batch_size) documents
                   (py_range 0 (length documents) (nat batch_size)) []) = documents"
    using batches_loop_texts[OF pos, of adapter documents 0 "[]"] by simp
  then have "length (batches_loop adapter (nat batch_size) documents
                   (py_range 0 (length documents) (nat batch_size)) []) = length documents"
    by (metis length_map)
  with texts show ?thesis
    using assms False
    by (simp add: analyze_file_def Let_def)
qed








lemma zip_replicate_right:
  "zip xs (replicate (length xs) y) = map (\<lambda>x. (x, y)) xs"
  by (induction xs) simp_all

subsection \<open>One label per record\<close>

text \<open>
  Claim C1.  Whatever the adapter answers, a chunk of \<open>n\<close> texts comes back from
  \<^verbatim>\<open>classify_sentiment_batch\<close> as a value of length \<open>n\<close>, and \<^verbatim>\<open>analyze_file\<close>
  run with a non-zero batch size saves exactly one labelled entry per document, in the
  order of the documents (it saves nothing when there is no document).  The batch size
  is a configuration constant (30); a zero step is refused by \<^verbatim>\<open>range\<close>.
\<close>

theorem analyze_file_one_label_per_record:
  assumes "batch_size \<noteq> 0"
  shows "py_len (classify_sentiment_batch outcome texts) = Inr (length texts)
       \<and> (\<exists>out. analyze_file batch_size adapter documents = Inr out
             \<and> (case out of
                    None \<Rightarrow> documents = []
                  | Some results \<Rightarrow>
                      length results = length documents \<and> map fst results = documents))"
proof (cases "documents = []")
  case True
  then show ?thesis
    by (simp add: classify_sentiment_batch_len analyze_file_def)
next
  case False
  from analyze_file_texts[OF assms False] obtain results where
    r: "analyze_file batch_size adapter documents = Inr (Some results)"
       "map fst results = documents"
    by blast
  from r(2) have "length results = length documents" by (metis length_map)
  with r show ?thesis by (simp add: classify_sentiment_batch_len)
qed

theorem analyze_file_one_label_per_record_witness:
  "(2::int) \<noteq> 0
   \<and> py_len (classify_sentiment_batch Malformed [''a'', ''b'']) = Inr (length [''a'', ''b''])
   \<and> (\<exists>out. analyze_file 2 short_adapter [''a'', ''b'', ''c'', ''d'', ''e''] = Inr out
         \<and> (case out of
                None \<Rightarrow> [''a'', ''b'', ''c'', ''d'', ''e''] = []
              | Some results \<Rightarrow>
                  length results = length [''a'', ''b'', ''c'', ''d'', ''e'']
                  \<and> map fst results = [''a'', ''b'', ''c'', ''d'', ''e'']))"
proof -
  have h: "(2::int) \<noteq> 0" by simp
  from analyze_file_one_label_per_record[OF h, of Malformed "[''a'', ''b'']" short_adapter
         "[''a'', ''b'', ''c'', ''d'', ''e'']"]
  show ?thesis using h by blast
qed

text \<open>
  Five texts in chunks of two: a short answer is padded, a malformed answer gives the
  whole chunk Neutral, a long answer is cut.
\<close>

lemma scenario_short_adapter:
  "analyze_file 2 short_adapter [''a'', ''b'', ''c'', ''d'', ''e'']
     = Inr (Some [(''a'', POSITIVE), (''b'', NEUTRAL), (''c'', NEUTRAL), (''d'', NEUTRAL),
                  (''e'', NEGATIVE)])"
  by code_simp

subsection \<open>The values of the labels\<close>




subsection \<open>A failed chunk\<close>

text \<open>
  Claim C3.  When the adapter call fails (the request raises, the message has no
  content, the content is blank, the JSON does not parse) or anything else in the
  \<^verbatim>\<open>try\<close> block raises, \<^verbatim>\<open>classify_sentiment_batch\<close> returns normally with Neutral for
  every text of the chunk, and the batch loop appends every text of the chunk with
  Neutral: no exception leaves the method and no record is dropped.
\<close>

theorem classify_failure_gives_neutral:
  assumes "outcome \<in> {ApiFailure, NoMessage, BlankContent, Malformed}
           \<or> (\<exists>e. classify_try outcome texts = Inl e)"
  shows "classify_sentiment_batch outcome texts = JArr (replicate (length texts) NEUTRAL)
       \<and> label_batch (classify_sentiment_batch outcome texts) texts results
           = results @ map (\<lambda>t. (t, NEUTRAL)) texts"
proof -
  from assms obtain e where "classify_try outcome texts = Inl e"
    by (auto simp add: classify_try_def)
  then have eq: "classify_sentiment_batch outcome texts = JArr (replicate (length texts) NEUTRAL)"
    by (simp add: classify_sentiment_batch_def)
  have "label_batch (JArr (replicate (length texts) NEUTRAL)) texts results
          = results @ map (\<lambda>t. (t, NEUTRAL)) texts"
    by (simp add: label_batch_def zip_replicate_right)
  with eq show ?thesis by simp
qed

theorem classify_failure_gives_neutral_witness:
  "(BlankContent \<in> {ApiFailure, NoMessage, BlankContent, Malformed}
      \<or> (\<exists>e. classify_try BlankContent [''a'', ''b'', ''c''] = Inl e))
   \<and> classify_sentiment_batch BlankContent [''a'', ''b'', ''c'']
       = JArr [NEUTRAL, NEUTRAL, NEUTRAL]
   \<and> label_batch (classify_sentiment_batch BlankContent [''a'', ''b'', ''c''])
        [''a'', ''b'', ''c''] [(''z'', POSITIVE)]
       = [(''z'', POSITIVE), (''a'', NEUTRAL), (''b'', NEUTRAL), (''c'', NEUTRAL)]"
proof -
  have h: "BlankContent \<in> {ApiFailure, NoMessage, BlankContent, Malformed}
      \<or> (\<exists>e. classify_try BlankContent [''a'', ''b'', ''c''] = Inl e)" by simp
  have n: "replicate (length [''a'', ''b'', ''c'']) NEUTRAL = [NEUTRAL, NEUTRAL, NEUTRAL]"
    by (simp add: numeral_3_eq_3)
  from classify_failure_gives_neutral[OF h, of "[(''z'', POSITIVE)]"]
  have "classify_sentiment_batch BlankContent [''a'', ''b'', ''c'']
          = JArr [NEUTRAL, NEUTRAL, NEUTRAL]"
    and "label_batch (classify_sentiment_batch BlankContent [''a'', ''b'', ''c''])
          [''a'', ''b'', ''c''] [(''z'', POSITIVE)]
          = [(''z'', POSITIVE)] @ map (\<lambda>t. (t, NEUTRAL)) [''a'', ''b'', ''c'']"
    unfolding n by blast+
  with h show ?thesis by simp
qed

subsection \<open>Alignment of a returned list\<close>

text \<open>
  Claim C4.  When the adapter returns a list of \<open>r\<close> labels for \<open>n\<close> texts, the result
  is the returned labels followed by \<open>n - r\<close> times Neutral if \<open>r < n\<close>, the first \<open>n\<close>
  returned labels if \<open>r > n\<close>, and the returned labels unchanged if \<open>r = n\<close>.
\<close>

theorem classify_pads_or_truncates:
  assumes "py_get doc ''sentiments'' (JArr []) = Inr (JArr returned)"
  shows "classify_sentiment_batch (Parsed doc) texts =
     JArr (if length returned < length texts
           then returned @ replicate (length texts - length returned) NEUTRAL
           else if length texts < length returned
           then take (length texts) returned
           else returned)"
  using assms by (simp add: classify_sentiment_batch_def classify_try_def)

theorem classify_pads_or_truncates_witness:
  "py_get (JObj [(''sentiments'', JArr [POSITIVE, NEGATIVE, POSITIVE, NEUTRAL])])
       ''sentiments'' (JArr [])
     = Inr (JArr [POSITIVE, NEGATIVE, POSITIVE, NEUTRAL])
   \<and> classify_sentiment_batch
        (Parsed (JObj [(''sentiments'', JArr [POSITIVE, NEGATIVE, POSITIVE, NEUTRAL])]))
        [''a'', ''b'', ''c'', ''d'', ''e'']
       = JArr [POSITIVE, NEGATIVE, POSITIVE, NEUTRAL, NEUTRAL]"
proof -
  have h: "py_get (JObj [(''sentiments'', JArr [POSITIVE, NEGATIVE, POSITIVE, NEUTRAL])])
       ''sentiments'' (JArr [])
     = Inr (JArr [POSITIVE, NEGATIVE, POSITIVE, NEUTRAL])"
    by (simp add: dict_get_def)
  from classify_pads_or_truncates[OF h, of "[''a'', ''b'', ''c'', ''d'', ''e'']"] h
  show ?thesis by simp
qed

section \<open>Properties of the quarterly segmentation\<close>

lemma get_quarter_in_QUARTERS: "get_quarter month \<in> set QUARTERS"
  by (simp add: get_quarter_def QUARTERS_def)

lemma bucket_append_known:
  assumes "quarter \<in> fst ` set quarterly_data"
  shows "bucket_append quarterly_data quarter r
           = Inr (map (\<lambda>(k, rows). (k, rows @ (if k = quarter then [r] else []))) quarterly_data)"
  using assms by (auto simp add: bucket_append_def)

lemma bucket_rows_general:
  assumes "map fst quarterly_data = QUARTERS"
  shows "bucket_rows rows (quarterly_data, processed_count, skipped_count)
     = Inr (map (\<lambda>(k, old). (k, old @ filter (in_quarter k) rows)) quarterly_data,
            processed_count + length (filter (\<lambda>r. utc_time r \<noteq> None) rows),
            skipped_count + length (filter (\<lambda>r. utc_time r = None) rows))"
  using assms
proof (induction rows arbitrary: quarterly_data processed_count skipped_count)
  case Nil
  then show ?case by (simp add: case_prod_unfold)
next
  case (Cons r rows)
  show ?case
  proof (cases "utc_time r")
    case None
    then have "\<And>k. \<not> in_quarter k r" by (simp add: in_quarter_def)
    with None Cons show ?thesis by simp
  next
    case (Some t)
    let ?q = "get_quarter (ts_month t)"
    let ?qd = "map (\<lambda>(k, rows). (k, rows @ (if k = ?q then [r] else []))) quarterly_data"
    have "?q \<in> fst ` set quarterly_data"
      using get_quarter_in_QUARTERS[of "ts_month t"] Cons.prems by (metis set_map)
    then have app: "bucket_append quarterly_data ?q r = Inr ?qd"
      by (rule bucket_append_known)
    have keys: "map fst ?qd = QUARTERS"
      using Cons.prems by (simp add: case_prod_unfold comp_def)
    have inq: "\<And>k. in_quarter k r = (k = ?q)"
      using Some by (auto simp add: in_quarter_def)
    show ?thesis
      using Some app Cons.IH[OF keys] inq
      by (simp add: case_prod_unfold comp_def)
  qed
qed

subsection \<open>The quarter of a month\<close>

text \<open>
  Claim C10.  \<^verbatim>\<open>get_quarter\<close> is total on the integers: every month outside 1..9,
  also 0, 13 and the negative numbers, falls into the last branch and gives Q4, and
  the result is always one of the four quarter names.
\<close>

theorem get_quarter_total_with_catch_all:
  "(month < 1 \<or> 9 < month \<longrightarrow> get_quarter month = ''Q4'')
   \<and> get_quarter month \<in> {''Q1'', ''Q2'', ''Q3'', ''Q4''}"
  by (simp add: get_quarter_def)

theorem get_quarter_total_with_catch_all_witness:
  "((13::int) < 1 \<or> 9 < (13::int)) \<and> get_quarter 13 = ''Q4''
   \<and> ((0::int) < 1 \<or> 9 < (0::int)) \<and> get_quarter 0 = ''Q4''
   \<and> get_quarter (- 5) \<in> {''Q1'', ''Q2'', ''Q3'', ''Q4''}"
  using get_quarter_total_with_catch_all[of 13] get_quarter_total_with_catch_all[of 0]
        get_quarter_total_with_catch_all[of "- 5"]
  by simp

text \<open>
  Claim C8.  Months 1 to 3 give Q1, 4 to 6 give Q2, 7 to 9 give Q3 and 10 to 12 give Q4.
  The row loop never raises; it puts into the bucket of each quarter exactly the rows
  with a valid timestamp whose month maps to that quarter, in their order, counts them
  as processed, and counts every row whose timestamp is missing or unparseable as
  skipped: such a row is in no bucket.
\<close>

theorem quarter_of_month_and_skipped_rows:
  "(\<forall>month \<in> {1 .. 12}.
      get_quarter month =
        (if month \<le> 3 then ''Q1'' else if month \<le> 6 then ''Q2''
         else if month \<le> 9 then ''Q3'' else ''Q4''))
   \<and> bucket_rows rows (empty_buckets, 0, 0)
       = Inr (map (\<lambda>q. (q, filter (in_quarter q) rows)) QUARTERS,
              length (filter (\<lambda>r. utc_time r \<noteq> None) rows),
              length (filter (\<lambda>r. utc_time r = None) rows))
   \<and> (\<forall>q. \<forall>r \<in> set rows. utc_time r = None \<longrightarrow> r \<notin> set (filter (in_quarter q) rows))"
proof -
  have months: "\<forall>month \<in> {1 .. 12}.
      get_quarter month =
        (if month \<le> 3 then ''Q1'' else if month \<le> 6 then ''Q2''
         else if month \<le> 9 then ''Q3'' else ''Q4'')"
    by (auto simp add: get_quarter_def)
  have keys: "map fst empty_buckets = QUARTERS"
    by (simp add: empty_buckets_def QUARTERS_def)
  have buckets: "bucket_rows rows (empty_buckets, 0, 0)
       = Inr (map (\<lambda>q. (q, filter (in_quarter q) rows)) QUARTERS,
              length (filter (\<lambda>r. utc_time r \<noteq> None) rows),
              length (filter (\<lambda>r. utc_time r = None) rows))"
    unfolding bucket_rows_general[OF keys]
    by (simp add: empty_buckets_def QUARTERS_def)
  have excluded: "\<forall>q. \<forall>r \<in> set rows. utc_time r = None \<longrightarrow> r \<notin> set (filter (in_quarter q) rows)"
    by (simp add: in_quarter_def)
  from months buckets excluded show ?thesis by blast
qed

theorem quarter_of_month_and_skipped_rows_witness:
  "(5::int) \<in> {1 .. 12} \<and> get_quarter 5 = ''Q2''
   \<and> bucket_rows scenario_rows (empty_buckets, 0, 0)
       = Inr ([(''Q1'', [dated 2024 1 ''Positive'']), (''Q2'', [dated 2024 4 ''Negative'']),
               (''Q3'', [dated 2024 7 ''Neutral'']), (''Q4'', [dated 2024 10 ''Positive''])],
              4, 1)
   \<and> undated ''Neutral'' \<in> set scenario_rows \<and> utc_time (undated ''Neutral'') = None
   \<and> undated ''Neutral'' \<notin> set (filter (in_quarter ''Q1'') scenario_rows)"
proof -
  note inst = quarter_of_month_and_skipped_rows[of scenario_rows]
  have m: "(5::int) \<in> {1 .. 12}" by simp
  from inst m have "get_quarter 5 = (if (5::int) \<le> 3 then ''Q1'' else if (5::int) \<le> 6 then ''Q2''
         else if (5::int) \<le> 9 then ''Q3'' else ''Q4'')" by blast
  then have q: "get_quarter 5 = ''Q2''" by simp
  from inst have "bucket_rows scenario_rows (empty_buckets, 0, 0)
       = Inr (map (\<lambda>q. (q, filter (in_quarter q) scenario_rows)) QUARTERS,
              length (filter (\<lambda>r. utc_time r \<noteq> None) scenario_rows),
              length (filter (\<lambda>r. utc_time r = None) scenario_rows))" by blast
  then have b: "bucket_rows scenario_rows (empty_buckets, 0, 0)
       = Inr ([(''Q1'', [dated 2024 1 ''Positive'']), (''Q2'', [dated 2024 4 ''Negative'']),
               (''Q3'', [dated 2024 7 ''Neutral'']), (''Q4'', [dated 2024 10 ''Positive''])],
              4, 1)"
    by (simp add: QUARTERS_def scenario_rows_def in_quarter_def dated_def undated_def
          get_quarter_def)
  have u: "undated ''Neutral'' \<in> set scenario_rows" "utc_time (undated ''Neutral'') = None"
    by (simp_all add: scenario_rows_def undated_def)
  from inst u have "undated ''Neutral'' \<notin> set (filter (in_quarter ''Q1'') scenario_rows)"
    by blast
  with m q b u show ?thesis by simp
qed

subsection \<open>The save loop\<close>

lemma save_quarters_append:
  "save_quarters year columns (xs @ ys) fs =
     (case save_quarters year columns xs fs of
        (fs1, None) \<Rightarrow> save_quarters year columns ys fs1
      | (fs1, Some e) \<Rightarrow> (fs1, Some e))"
proof (induction xs arbitrary: fs)
  case Nil
  then show ?case by simp
next
  case (Cons x xs)
  obtain q rows where x: "x = (q, rows)" by (cases x)
  show ?case
  proof (cases "rows = []")
    case True
    with x Cons show ?thesis by simp
  next
    case False
    show ?thesis
    proof (cases "save_quarter year columns q rows fs")
      case (Inl e)
      with x False show ?thesis by simp
    next
      case (Inr fs')
      with x False Cons show ?thesis by simp
    qed
  qed
qed

lemma process_files_append:
  "process_files folder (files1 @ files2) fs
     = process_files folder files2 (process_files folder files1 fs)"
  by (induction files1 arbitrary: fs) simp_all

lemma process_single_file_readable:
  assumes "read_excel fs file_path = Inr (columns, rows)" and "''UTC_Time'' \<in> set columns"
  shows "process_single_file file_path fs
     = save_quarters (resolve_year file_path rows) columns
         (map (\<lambda>k. (k, filter (in_quarter k) rows)) QUARTERS) fs"
proof -
  have keys: "map fst empty_buckets = QUARTERS"
    by (simp add: empty_buckets_def QUARTERS_def)
  have "bucket_rows rows (empty_buckets, 0, 0)
       = Inr (map (\<lambda>q. (q, filter (in_quarter q) rows)) QUARTERS,
              length (filter (\<lambda>r. utc_time r \<noteq> None) rows),
              length (filter (\<lambda>r. utc_time r = None) rows))"
    unfolding bucket_rows_general[OF keys]
    by (simp add: empty_buckets_def QUARTERS_def)
  with assms show ?thesis by (simp add: process_single_file_def)
qed

lemma save_quarter_existing:
  assumes "fs (get_quarterly_file_path year q) = Some (Workbook ecols existing)"
  shows "save_quarter year columns q rows fs
     = Inr (fs(get_quarterly_file_path year q \<mapsto>
              Workbook (ecols @ filter (\<lambda>c. c \<notin> set ecols) columns) (existing @ rows)))"
  using assms
  by (simp add: save_quarter_def path_exists_def read_excel_def pd_concat_def to_excel_def)

lemma save_quarter_unreadable:
  assumes "path_exists fs (get_quarterly_file_path year q)"
    and "read_excel fs (get_quarterly_file_path year q) = Inl e"
  shows "save_quarter year columns q rows fs = Inl e"
  using assms by (simp add: save_quarter_def)

lemma partition_rows_Some:
  "partition_rows fs year q = Some rows
     \<longleftrightarrow> (\<exists>columns. fs (get_quarterly_file_path year q) = Some (Workbook columns rows))"
  by (auto simp add: partition_rows_def split: option.splits node.splits)

text \<open>
  Claim C7.  Merging a bucket into a partition that exists appends the new records
  after the existing ones and removes nothing: merging the same \<open>N\<close> records twice into
  a partition of \<open>M\<close> records succeeds both times and leaves the \<open>M\<close> records, then the
  \<open>N\<close> records, then the \<open>N\<close> records again, \<open>M + 2N\<close> in all.  (An empty bucket is
  not merged at all.)
\<close>

theorem merge_twice_appends_twice:
  assumes "partition_rows fs year q = Some existing"
  shows "(let fs1 = fst (save_quarters year columns [(q, rows)] fs);
              fs2 = fst (save_quarters year columns [(q, rows)] fs1)
          in snd (save_quarters year columns [(q, rows)] fs) = None
           \<and> snd (save_quarters year columns [(q, rows)] fs1) = None
           \<and> partition_rows fs2 year q = Some (existing @ rows @ rows))
       \<and> length (existing @ rows @ rows) = length existing + 2 * length rows
       \<and> take (length existing) (existing @ rows @ rows) = existing"
proof (cases "rows = []")
  case True
  with assms show ?thesis by simp
next
  case False
  from assms obtain ecols where
    ex: "fs (get_quarterly_file_path year q) = Some (Workbook ecols existing)"
    by (auto simp add: partition_rows_Some)
  let ?p = "get_quarterly_file_path year q"
  let ?c1 = "ecols @ filter (\<lambda>c. c \<notin> set ecols) columns"
  let ?fs1 = "fs(?p \<mapsto> Workbook ?c1 (existing @ rows))"
  let ?c2 = "?c1 @ filter (\<lambda>c. c \<notin> set ?c1) columns"
  let ?fs2 = "?fs1(?p \<mapsto> Workbook ?c2 ((existing @ rows) @ rows))"
  have first: "save_quarter year columns q rows fs = Inr ?fs1"
    using ex by (rule save_quarter_existing)
  have "?fs1 ?p = Some (Workbook ?c1 (existing @ rows))" by simp
  then have second: "save_quarter year columns q rows ?fs1 = Inr ?fs2"
    by (rule save_quarter_existing)
  have one: "save_quarters year columns [(q, rows)] fs = (?fs1, None)"
    using False first by simp
  have two: "save_quarters year columns [(q, rows)] ?fs1 = (?fs2, None)"
    using False second by simp
  have three: "partition_rows ?fs2 year q = Some (existing @ rows @ rows)"
    by (simp add: partition_rows_def)
  show ?thesis
    unfolding Let_def one two fst_conv snd_conv using three by simp
qed

theorem merge_twice_appends_twice_witness:
  "partition_rows fs_one_partition ''2024'' ''Q1'' = Some [dated 2024 2 ''Neutral'']
   \<and> partition_rows
        (fst (save_quarters ''2024'' RESULT_COLUMNS [(''Q1'', [dated 2024 1 ''Positive''])]
           (fst (save_quarters ''2024'' RESULT_COLUMNS [(''Q1'', [dated 2024 1 ''Positive''])]
              fs_one_partition))))
        ''2024'' ''Q1''
       = Some [dated 2024 2 ''Neutral'', dated 2024 1 ''Positive'', dated 2024 1 ''Positive'']"
proof -
  have h: "partition_rows fs_one_partition ''2024'' ''Q1'' = Some [dated 2024 2 ''Neutral'']"
    by (simp add: partition_rows_def fs_one_partition_def)
  from merge_twice_appends_twice[of fs_one_partition "''2024''" "''Q1''"
         "[dated 2024 2 ''Neutral'']" RESULT_COLUMNS "[dated 2024 1 ''Positive'']", OF h] h
  show ?thesis by (simp add: Let_def del: save_quarters.simps)
qed

subsection \<open>A partition that cannot be read\<close>

text \<open>
  One \<^verbatim>\<open>try\<close> encloses the whole of \<^verbatim>\<open>process_single_file\<close>, the save loop included.
  With rows of January, April and July and an unreadable second-quarter partition,
  the first quarter is written, the read fails, and the bucket of the third quarter,
  although not empty, is never written.
\<close>

theorem later_partitions_not_processed_counterexample:
  "snd (process_single_file results_2024 fs_unreadable_q2) = Some ReadError
   \<and> fst (process_single_file results_2024 fs_unreadable_q2)
        (get_quarterly_file_path ''2024'' ''Q1'')
       = Some (Workbook RESULT_COLUMNS [dated 2024 1 ''Positive''])
   \<and> filter (in_quarter ''Q3'') [dated 2024 1 ''Positive'', dated 2024 4 ''Negative'',
                                  dated 2024 7 ''Neutral''] = [dated 2024 7 ''Neutral'']
   \<and> fst (process_single_file results_2024 fs_unreadable_q2)
        (get_quarterly_file_path ''2024'' ''Q3'') = None"
  by code_simp

text \<open>
  Claim C5, as the code has it.  When the partition of a non-empty bucket exists and
  cannot be read, \<^verbatim>\<open>process_single_file\<close> catches the exception and returns; the file
  system is then as the earlier quarters of that input file left it (their partitions
  merged and written, the unreadable partition and the partitions of the later
  quarters untouched), and the file loop goes on from there with the remaining input
  files.
\<close>

theorem read_failure_aborts_rest_of_file_only:
  assumes "read_excel fs (path_join folder file) = Inr (columns, rows)"
    and "''UTC_Time'' \<in> set columns"
    and "QUARTERS = earlier @ q # later"
    and "filter (in_quarter q) rows \<noteq> []"
    and "save_quarters (resolve_year (path_join folder file) rows) columns
           (map (\<lambda>k. (k, filter (in_quarter k) rows)) earlier) fs = (fs1, None)"
    and "path_exists fs1 (get_quarterly_file_path (resolve_year (path_join folder file) rows) q)"
    and "read_excel fs1 (get_quarterly_file_path (resolve_year (path_join folder file) rows) q)
           = Inl e"
  shows "process_single_file (path_join folder file) fs = (fs1, Some e)
       \<and> process_files folder (file # files) fs = process_files folder files fs1"
proof -
  let ?year = "resolve_year (path_join folder file) rows"
  let ?bucket = "\<lambda>k. (k, filter (in_quarter k) rows)"
  have failing: "save_quarter ?year columns q (filter (in_quarter q) rows) fs1 = Inl e"
    using assms(6,7) by (rule save_quarter_unreadable)
  have rest: "save_quarters ?year columns (?bucket q # map ?bucket later) fs1 = (fs1, Some e)"
    using assms(4) failing by simp
  have "map ?bucket QUARTERS = map ?bucket earlier @ (?bucket q # map ?bucket later)"
    by (simp add: assms(3))
  then have "save_quarters ?year columns (map ?bucket QUARTERS) fs = (fs1, Some e)"
    using assms(5) rest by (simp only: save_quarters_append split: prod.splits) simp
  with process_single_file_readable[OF assms(1,2)]
  have single: "process_single_file (path_join folder file) fs = (fs1, Some e)" by simp
  then show ?thesis by simp
qed

lemma resolve_year_results_2024:
  "resolve_year results_2024
     [dated 2024 1 ''Positive'', dated 2024 4 ''Negative'', dated 2024 7 ''Neutral''] = ''2024''"
  by code_simp

lemma fs_unreadable_q2_lookup:
  "fs_unreadable_q2 results_2024
     = Some (Workbook RESULT_COLUMNS
         [dated 2024 1 ''Positive'', dated 2024 4 ''Negative'', dated 2024 7 ''Neutral''])"
  "fs_unreadable_q2 (get_quarterly_file_path ''2024'' ''Q1'') = None"
  "fs_unreadable_q2 (get_quarterly_file_path ''2024'' ''Q2'') = Some Unreadable"
  by code_simp+

theorem read_failure_aborts_rest_of_file_only_witness:
  "read_excel fs_unreadable_q2 (path_join BASE_DATA_PATH (result_file_name 2024))
     = Inr (RESULT_COLUMNS,
            [dated 2024 1 ''Positive'', dated 2024 4 ''Negative'', dated 2024 7 ''Neutral''])
   \<and> ''UTC_Time'' \<in> set RESULT_COLUMNS
   \<and> QUARTERS = [''Q1''] @ ''Q2'' # [''Q3'', ''Q4'']
   \<and> filter (in_quarter ''Q2'')
        [dated 2024 1 ''Positive'', dated 2024 4 ''Negative'', dated 2024 7 ''Neutral''] \<noteq> []
   \<and> path_exists
        (to_excel fs_unreadable_q2 (get_quarterly_file_path ''2024'' ''Q1'')
           (RESULT_COLUMNS, [dated 2024 1 ''Positive'']))
        (get_quarterly_file_path ''2024'' ''Q2'')
   \<and> process_single_file (path_join BASE_DATA_PATH (result_file_name 2024)) fs_unreadable_q2
       = (to_excel fs_unreadable_q2 (get_quarterly_file_path ''2024'' ''Q1'')
            (RESULT_COLUMNS, [dated 2024 1 ''Positive'']), Some ReadError)
   \<and> process_files BASE_DATA_PATH [result_file_name 2024, result_file_name 2025]
        fs_unreadable_q2
       = process_files BASE_DATA_PATH [result_file_name 2025]
           (to_excel fs_unreadable_q2 (get_quarterly_file_path ''2024'' ''Q1'')
              (RESULT_COLUMNS, [dated 2024 1 ''Positive'']))"
proof -
  let ?rows = "[dated 2024 1 ''Positive'', dated 2024 4 ''Negative'', dated 2024 7 ''Neutral'']"
  let ?file = "path_join BASE_DATA_PATH (result_file_name 2024)"
  let ?fs1 = "to_excel fs_unreadable_q2 (get_quarterly_file_path ''2024'' ''Q1'')
                (RESULT_COLUMNS, [dated 2024 1 ''Positive''])"
  have year: "resolve_year ?file ?rows = ''2024''"
    using resolve_year_results_2024 by (simp add: results_2024_def)
  have h1: "read_excel fs_unreadable_q2 ?file = Inr (RESULT_COLUMNS, ?rows)"
    using fs_unreadable_q2_lookup(1) by (simp add: read_excel_def results_2024_def)
  have h2: "''UTC_Time'' \<in> set RESULT_COLUMNS" by (simp add: RESULT_COLUMNS_def)
  have h3: "QUARTERS = [''Q1''] @ ''Q2'' # [''Q3'', ''Q4'']" by (simp add: QUARTERS_def)
  have h4: "filter (in_quarter ''Q2'') ?rows \<noteq> []"
    by (simp add: in_quarter_def dated_def get_quarter_def)
  have q1: "filter (in_quarter ''Q1'') ?rows = [dated 2024 1 ''Positive'']"
    by (simp add: in_quarter_def dated_def get_quarter_def)
  have h5: "save_quarters (resolve_year ?file ?rows) RESULT_COLUMNS
           (map (\<lambda>k. (k, filter (in_quarter k) ?rows)) [''Q1'']) fs_unreadable_q2 = (?fs1, None)"
    unfolding year
    using fs_unreadable_q2_lookup(2) q1
    by (simp add: save_quarter_def path_exists_def)
  have differ: "get_quarterly_file_path ''2024'' ''Q2'' \<noteq> get_quarterly_file_path ''2024'' ''Q1''"
    by (simp add: get_quarterly_file_path_def)
  have at_q2: "?fs1 (get_quarterly_file_path ''2024'' ''Q2'') = Some Unreadable"
    using fs_unreadable_q2_lookup(3) differ by (simp add: to_excel_def)
  have h6: "path_exists ?fs1 (get_quarterly_file_path (resolve_year ?file ?rows) ''Q2'')"
    unfolding year using at_q2 by (simp add: path_exists_def)
  have h7: "read_excel ?fs1 (get_quarterly_file_path (resolve_year ?file ?rows) ''Q2'')
              = Inl ReadError"
    unfolding year using at_q2 by (simp add: read_excel_def)
  from read_failure_aborts_rest_of_file_only[OF h1 h2 h3 h4 h5 h6 h7,
         of "[result_file_name 2025]"]
  have "process_single_file ?file fs_unreadable_q2 = (?fs1, Some ReadError)"
    and "process_files BASE_DATA_PATH [result_file_name 2024, result_file_name 2025]
           fs_unreadable_q2
         = process_files BASE_DATA_PATH [result_file_name 2025] ?fs1"
    by blast+
  moreover from h6 have "path_exists ?fs1 (get_quarterly_file_path ''2024'' ''Q2'')"
    unfolding year .
  ultimately show ?thesis using h1 h2 h3 h4 by blast
qed

section \<open>Properties of the aggregation\<close>

lemma map_of_tabulate:
  "map_of (map (\<lambda>v. (v, f v)) xs) k = (if k \<in> set xs then Some (f k) else None)"
  by (induction xs) auto

lemma series_get_value_counts_pct:
  "series_get (value_counts_pct cells) (Str s) 0
     = (let labels = filter (\<lambda>c. c \<noteq> NaN) cells
        in if labels = [] then 0
           else 100 * real (count_list labels (Str s)) / real (length labels))"
proof -
  let ?labels = "filter (\<lambda>c. c \<noteq> NaN) cells"
  show ?thesis
  proof (cases "Str s \<in> set ?labels")
    case True
    then have "?labels \<noteq> []" by (metis empty_iff list.set(1))
    with True show ?thesis
      by (simp add: series_get_def value_counts_pct_def Let_def map_of_tabulate)
  next
    case False
    then have "count_list ?labels (Str s) = 0" by (simp add: count_list_0_iff)
    with False show ?thesis
      by (simp add: series_get_def value_counts_pct_def Let_def map_of_tabulate)
  qed
qed

lemma class_value:
  "series_get (value_counts_pct cells) (Str a) 0 + series_get (value_counts_pct cells) (Str b) 0
     = label_share a b cells"
  by (simp add: series_get_value_counts_pct label_share_def Let_def add_divide_distrib
        distrib_left)

lemma process_quarterly_file_usable:
  assumes "read_excel fs file_path = Inr (columns, rows)" and "''sentiment'' \<in> set columns"
  shows "process_quarterly_file file_path quarter_name data fs
     = (True, data\<lparr>quarter_col := quarter_col data @ [quarter_name],
                     positive_col := positive_col data
                        @ [label_share ''Positive'' ''positive'' (map sentiment rows)],
                     negative_col := negative_col data
                        @ [label_share ''Negative'' ''negative'' (map sentiment rows)],
                     neutral_col := neutral_col data
                        @ [label_share ''Neutral'' ''neutral'' (map sentiment rows)]\<rparr>)"
  using assms
  by (simp add: process_quarterly_file_def find_sentiment_column_def Let_def class_value)

lemma label_share_zero:
  assumes "Str a \<notin> set cells" and "Str b \<notin> set cells"
  shows "label_share a b cells = 0"
proof -
  have "count_list (filter (\<lambda>c. c \<noteq> NaN) cells) (Str a) = 0"
       "count_list (filter (\<lambda>c. c \<noteq> NaN) cells) (Str b) = 0"
    using assms by (simp_all add: count_list_0_iff)
  then show ?thesis by (simp add: label_share_def Let_def)
qed

text \<open>
  Claim C6, as the code has it.  For a partition that can be read and has a
  \<^verbatim>\<open>sentiment\<close> column, the row appended holds for each class 100 times the number of
  labels spelled exactly as the capitalised or as the lower-case class name, divided
  by the number of records whose label is not empty (0 when there is none); a class
  with no such label is reported as 0, not left out.  The arithmetic is exact here.
\<close>

theorem class_share_of_labelled_records:
  assumes "read_excel fs file_path = Inr (columns, rows)" and "''sentiment'' \<in> set columns"
  shows "process_quarterly_file file_path quarter_name data fs
     = (True, data\<lparr>quarter_col := quarter_col data @ [quarter_name],
                     positive_col := positive_col data
                        @ [label_share ''Positive'' ''positive'' (map sentiment rows)],
                     negative_col := negative_col data
                        @ [label_share ''Negative'' ''negative'' (map sentiment rows)],
                     neutral_col := neutral_col data
                        @ [label_share ''Neutral'' ''neutral'' (map sentiment rows)]\<rparr>)
   \<and> (Str a \<notin> set (map sentiment rows) \<and> Str b \<notin> set (map sentiment rows)
        \<longrightarrow> label_share a b (map sentiment rows) = 0)"
  using process_quarterly_file_usable[OF assms] label_share_zero by blast

theorem class_share_of_labelled_records_witness:
  "read_excel fs_partitions (get_quarterly_file_path ''2024'' ''Q2'')
     = Inr (RESULT_COLUMNS, [dated 2024 4 ''Positive'', unlabelled 2024 5])
   \<and> ''sentiment'' \<in> set RESULT_COLUMNS
   \<and> process_quarterly_file (get_quarterly_file_path ''2024'' ''Q2'') ''2024_Q2'' no_data
        fs_partitions
       = (True, \<lparr>quarter_col = [''2024_Q2''], positive_col = [100], negative_col = [0],
                  neutral_col = [0]\<rparr>)
   \<and> Str ''Negative'' \<notin> set (map sentiment [dated 2024 4 ''Positive'', unlabelled 2024 5])
   \<and> Str ''negative'' \<notin> set (map sentiment [dated 2024 4 ''Positive'', unlabelled 2024 5])
   \<and> label_share ''Negative'' ''negative''
        (map sentiment [dated 2024 4 ''Positive'', unlabelled 2024 5]) = 0"
proof -
  let ?rows = "[dated 2024 4 ''Positive'', unlabelled 2024 5]"
  have h1: "read_excel fs_partitions (get_quarterly_file_path ''2024'' ''Q2'')
     = Inr (RESULT_COLUMNS, ?rows)"
    by code_simp
  have h2: "''sentiment'' \<in> set RESULT_COLUMNS" by (simp add: RESULT_COLUMNS_def)
  have absent: "Str ''Negative'' \<notin> set (map sentiment ?rows)"
               "Str ''negative'' \<notin> set (map sentiment ?rows)"
    by (simp_all add: dated_def unlabelled_def)
  have shares: "label_share ''Positive'' ''positive'' (map sentiment ?rows) = 100"
               "label_share ''Neutral'' ''neutral'' (map sentiment ?rows) = 0"
    by (simp_all add: label_share_def dated_def unlabelled_def)
  note inst = class_share_of_labelled_records[OF h1 h2, of "''2024_Q2''" no_data
                "''Negative''" "''negative''"]
  from inst absent have zero: "label_share ''Negative'' ''negative'' (map sentiment ?rows) = 0"
    by blast
  from inst have "process_quarterly_file (get_quarterly_file_path ''2024'' ''Q2'') ''2024_Q2''
        no_data fs_partitions
       = (True, no_data\<lparr>quarter_col := quarter_col no_data @ [''2024_Q2''],
                     positive_col := positive_col no_data
                        @ [label_share ''Positive'' ''positive'' (map sentiment ?rows)],
                     negative_col := negative_col no_data
                        @ [label_share ''Negative'' ''negative'' (map sentiment ?rows)],
                     neutral_col := neutral_col no_data
                        @ [label_share ''Neutral'' ''neutral'' (map sentiment ?rows)]\<rparr>)"
    by blast
  then have "process_quarterly_file (get_quarterly_file_path ''2024'' ''Q2'') ''2024_Q2''
        no_data fs_partitions
       = (True, \<lparr>quarter_col = [''2024_Q2''], positive_col = [100], negative_col = [0],
                  neutral_col = [0]\<rparr>)"
    unfolding shares zero by (simp add: no_data_def)
  with h1 h2 absent zero show ?thesis by blast
qed

text \<open>
  Two partitions on which the code and the formula of the specification differ: the
  label \<^verbatim>\<open>POSITIVE\<close> is not counted as positive (0 against 50), and a record without
  a label is left out of the total (100 against 50).
\<close>

theorem class_percentage_counterexample:
  "partition_rows fs_partitions ''2024'' ''Q1''
     = Some [dated 2024 1 ''POSITIVE'', dated 2024 2 ''Negative'']
   \<and> positive_col (snd (process_quarterly_file (get_quarterly_file_path ''2024'' ''Q1'')
                          ''2024_Q1'' no_data fs_partitions)) = [0]
   \<and> spec_percentage ''positive''
        (map sentiment [dated 2024 1 ''POSITIVE'', dated 2024 2 ''Negative'']) = 50
   \<and> partition_rows fs_partitions ''2024'' ''Q2''
       = Some [dated 2024 4 ''Positive'', unlabelled 2024 5]
   \<and> positive_col (snd (process_quarterly_file (get_quarterly_file_path ''2024'' ''Q2'')
                          ''2024_Q2'' no_data fs_partitions)) = [100]
   \<and> spec_percentage ''positive''
        (map sentiment [dated 2024 4 ''Positive'', unlabelled 2024 5]) = 50"
  by code_simp

subsection \<open>The rows of a range of years\<close>

lemma collect_step:
  fixes data :: sentiment_data and y :: int and q :: string and fs :: filesystem
  defines "p \<equiv> get_quarterly_file_path (str_int y) q"
  defines "data' \<equiv> (if path_exists fs p
                       then snd (process_quarterly_file p (str_int y @ ''_'' @ q) data fs)
                       else data)"
  defines "n \<equiv> (if usable_partition fs y q then 1 else 0 :: nat)"
  shows "quarter_col data'
           = quarter_col data @ (if usable_partition fs y q then [quarter_name_of (y, q)] else [])
       \<and> length (positive_col data') = length (positive_col data) + n
       \<and> length (negative_col data') = length (negative_col data) + n
       \<and> length (neutral_col data') = length (neutral_col data) + n"
proof (cases "fs p")
  case None
  then show ?thesis
    unfolding data'_def n_def by (simp add: path_exists_def usable_partition_def p_def)
next
  case (Some nd)
  show ?thesis
  proof (cases nd)
    case Directory
    with Some show ?thesis
      unfolding data'_def n_def
      by (simp add: path_exists_def usable_partition_def p_def[symmetric]
            process_quarterly_file_def read_excel_def)
  next
    case Unreadable
    with Some show ?thesis
      unfolding data'_def n_def
      by (simp add: path_exists_def usable_partition_def p_def[symmetric]
            process_quarterly_file_def read_excel_def)
  next
    case (Workbook columns rows)
    with Some have r: "read_excel fs p = Inr (columns, rows)" by (simp add: read_excel_def)
    show ?thesis
    proof (cases "''sentiment'' \<in> set columns")
      case True
      from process_quarterly_file_usable[OF r True] Some Workbook True show ?thesis
        unfolding data'_def n_def
        by (simp add: path_exists_def usable_partition_def p_def[symmetric] quarter_name_of_def)
    next
      case False
      with Some Workbook r show ?thesis
        unfolding data'_def n_def
        by (simp add: path_exists_def usable_partition_def p_def[symmetric]
              process_quarterly_file_def find_sentiment_column_def)
    qed
  qed
qed

lemma collect_quarters_cols:
  "quarter_col (collect_quarters y qs data fs)
     = quarter_col data @ map quarter_name_of (filter (\<lambda>(y, q). usable_partition fs y q) (map (Pair y) qs))
   \<and> length (positive_col (collect_quarters y qs data fs))
       = length (positive_col data) + length (filter (\<lambda>(y, q). usable_partition fs y q) (map (Pair y) qs))
   \<and> length (negative_col (collect_quarters y qs data fs))
       = length (negative_col data) + length (filter (\<lambda>(y, q). usable_partition fs y q) (map (Pair y) qs))
   \<and> length (neutral_col (collect_quarters y qs data fs))
       = length (neutral_col data) + length (filter (\<lambda>(y, q). usable_partition fs y q) (map (Pair y) qs))"
proof (induction qs arbitrary: data)
  case Nil
  then show ?case by simp
next
  case (Cons q qs)
  let ?p = "get_quarterly_file_path (str_int y) q"
  let ?d = "if path_exists fs ?p
            then snd (process_quarterly_file ?p (str_int y @ ''_'' @ q) data fs) else data"
  have unfold: "collect_quarters y (q # qs) data fs = collect_quarters y qs ?d fs"
    by (simp add: Let_def)
  note step = collect_step[of fs y q data]
  note ih = Cons.IH[of ?d]
  show ?case
    unfolding unfold using step ih by (cases "usable_partition fs y q") simp_all
qed

lemma collect_years_cols:
  "quarter_col (collect_years ys data fs)
     = quarter_col data
       @ map quarter_name_of (filter (\<lambda>(y, q). usable_partition fs y q) (List.product ys QUARTERS))
   \<and> length (positive_col (collect_years ys data fs))
       = length (positive_col data)
         + length (filter (\<lambda>(y, q). usable_partition fs y q) (List.product ys QUARTERS))
   \<and> length (negative_col (collect_years ys data fs))
       = length (negative_col data)
         + length (filter (\<lambda>(y, q). usable_partition fs y q) (List.product ys QUARTERS))
   \<and> length (neutral_col (collect_years ys data fs))
       = length (neutral_col data)
         + length (filter (\<lambda>(y, q). usable_partition fs y q) (List.product ys QUARTERS))"
proof (induction ys arbitrary: data)
  case Nil
  then show ?case by simp
next
  case (Cons y ys)
  note q = collect_quarters_cols[of y QUARTERS data fs]
  note ih = Cons.IH[of "collect_quarters y QUARTERS data fs"]
  show ?case using q ih by simp
qed

text \<open>
  Claim C9, as the code has it.  For every range of years, \<^verbatim>\<open>collect_data\<close> appends one
  row per quarter whose partition is a readable workbook with a \<^verbatim>\<open>sentiment\<close> column,
  in chronological order (years ascending, Q1 to Q4 within a year); every other quarter
  of the range, whether its partition is missing, unreadable or without that column,
  is left out, and the remaining quarters are still produced.
\<close>

theorem one_row_per_usable_partition:
  "quarter_col (collect_data (first_year, last_year) data fs)
     = quarter_col data @ map quarter_name_of (usable_quarters fs first_year last_year)
   \<and> length (positive_col (collect_data (first_year, last_year) data fs))
       = length (positive_col data) + length (usable_quarters fs first_year last_year)
   \<and> length (negative_col (collect_data (first_year, last_year) data fs))
       = length (negative_col data) + length (usable_quarters fs first_year last_year)
   \<and> length (neutral_col (collect_data (first_year, last_year) data fs))
       = length (neutral_col data) + length (usable_quarters fs first_year last_year)"
  unfolding collect_data_def usable_quarters_def fst_conv snd_conv
  by (rule collect_years_cols)

lemma usable_quarters_fs_partitions:
  "usable_quarters fs_partitions 2023 2025 = [(2024, ''Q1''), (2024, ''Q2'')]"
  by code_simp

theorem one_row_per_usable_partition_witness:
  "quarter_col (collect_data (2023, 2025) no_data fs_partitions) = [''2024_Q1'', ''2024_Q2'']
   \<and> length (positive_col (collect_data (2023, 2025) no_data fs_partitions)) = 2
   \<and> length (negative_col (collect_data (2023, 2025) no_data fs_partitions)) = 2
   \<and> length (neutral_col (collect_data (2023, 2025) no_data fs_partitions)) = 2"
proof -
  have names: "map quarter_name_of [(2024, ''Q1''), (2024, ''Q2'')] = [''2024_Q1'', ''2024_Q2'']"
    by code_simp
  from one_row_per_usable_partition[of 2023 2025 no_data fs_partitions]
  show ?thesis
    unfolding usable_quarters_fs_partitions names by (simp add: no_data_def)
qed

text \<open>
  The partitions of the third and fourth quarter exist, yet no row is produced for
  them: one cannot be read, the other has no \<^verbatim>\<open>sentiment\<close> column.
\<close>

theorem existing_partition_without_row_counterexample:
  "path_exists fs_partitions (get_quarterly_file_path (str_int 2024) ''Q3'')
   \<and> path_exists fs_partitions (get_quarterly_file_path (str_int 2024) ''Q4'')
   \<and> quarter_col (collect_data (2024, 2024) no_data fs_partitions) = [''2024_Q1'', ''2024_Q2'']"
  by code_simp

end
